theory Spec2Isabelle
  imports Main "HOL-Library.Sublist"
begin

section \<open>Host objects and the fingerprint engine\<close>

text \<open>
  A document object of the host is referred to by an object identity (\<open>oid\<close>); the
  attributes the script reads or writes are the fields of \<open>entity\<close>. An attribute that
  the object may lack (\<open>hasattr\<close>, \<open>getattr\<close> with a default) is an option.
  \<open>Fingerprint\<close> stands for \<open>calculate_hash(get_feature_data(obj))\<close> on the object's
  current attribute values: the MD5 digest of the JSON snapshot, or the exception that
  reading the snapshot raised. Clock readings (\<open>time.time()\<close>, \<open>TimeStamp\<close>) are
  integers; only their order is used.
\<close>

type_synonym oid = nat

datatype error = HostError string

record entity =
  Name :: string
  Label :: string
  TimeStamp :: "int option"
  FeatureHash :: "string option"
  FeatureHistory :: "string list option"
  OutList :: "oid list"
  Fingerprint :: "error + string"

record config =
  history_length :: nat
  recompute_delay :: int
  dependency_depth :: nat
  batch_size :: nat
  edit_check_interval :: int
  throttle_interval :: int

definition default_config :: config where
  "default_config = \<lparr>history_length = 5, recompute_delay = 300, dependency_depth = 3,
     batch_size = 50, edit_check_interval = 200, throttle_interval = 100\<rparr>"

record engine =
  objs :: "oid \<Rightarrow> entity"
  feature_cache :: "string \<rightharpoonup> int \<times> string"
  dependency_cache :: "string \<rightharpoonup> string list"
  console :: "string list"

text \<open>Python's \<open>xs[-n:]\<close>: the last \<open>n\<close> elements, and the whole list when \<open>n = 0\<close>.\<close>

definition last_n :: "nat \<Rightarrow> 'a list \<Rightarrow> 'a list" where
  "last_n n xs = (if n = 0 then xs else drop (length xs - n) xs)"

text \<open>\<open>getattr(obj, "TimeStamp", 0)\<close>.\<close>

definition last_modified :: "entity \<Rightarrow> int" where
  "last_modified obj = (case TimeStamp obj of None \<Rightarrow> 0 | Some t \<Rightarrow> t)"

text \<open>The cache check at the head of \<open>process_feature\<close>: true when the function
  returns \<open>False\<close> at once.\<close>

definition cache_skip :: "engine \<Rightarrow> entity \<Rightarrow> bool" where
  "cache_skip e obj =
     (case feature_cache e (Name obj) of
        None \<Rightarrow> False
      | Some (cache_time, cache_hash) \<Rightarrow> last_modified obj \<le> cache_time)"

text \<open>\<open>obj.addProperty\<close> for the two bookkeeping properties, when absent: a new string
  list property is empty, a new string property is the empty string.\<close>

definition ensure_properties :: "entity \<Rightarrow> entity" where
  "ensure_properties obj =
     (let obj1 = (if FeatureHistory obj = None then obj\<lparr>FeatureHistory := Some []\<rparr> else obj)
      in if FeatureHash obj1 = None then obj1\<lparr>FeatureHash := Some []\<rparr> else obj1)"

text \<open>The history update inside the \<open>if\<close> of line 167: \<open>history\<close> is the object's own
  list, so \<open>history[-1] = history_entry\<close> changes the stored list, while the other branch
  appends and stores the capped slice.\<close>

definition update_history :: "config \<Rightarrow> string \<Rightarrow> string \<Rightarrow> entity \<Rightarrow> entity" where
  "update_history cfg stamp feature_hash obj =
     (let history = (case FeatureHistory obj of None \<Rightarrow> [] | Some h \<Rightarrow> h);
          history_entry = stamp @ '': '' @ feature_hash
      in if history \<noteq> [] \<and> suffix feature_hash (last history)
         then obj\<lparr>FeatureHistory := Some (butlast history @ [history_entry])\<rparr>
         else obj\<lparr>FeatureHistory :=
                    Some (last_n (history_length cfg) (history @ [history_entry]))\<rparr>)"

text \<open>The body of the \<open>try\<close> block. \<open>now\<close> is \<open>time.time()\<close>, \<open>stamp\<close> is
  \<open>time.strftime("%Y-%m-%d %H:%M:%S")\<close>. The only raising step modelled is the
  computation of the fingerprint, which precedes every write.\<close>

definition process_feature_try ::
  "config \<Rightarrow> int \<Rightarrow> string \<Rightarrow> oid \<Rightarrow> engine \<Rightarrow> error + (engine \<times> bool)" where
  "process_feature_try cfg now stamp r e =
     (let obj = objs e r; obj_id = Name obj in
      if cache_skip e obj then Inr (e, False)
      else case Fingerprint obj of
        Inl err \<Rightarrow> Inl err
      | Inr feature_hash \<Rightarrow>
          (let obj2 = ensure_properties obj in
           if FeatureHash obj2 = None \<or> FeatureHash obj2 \<noteq> Some feature_hash
           then
             (let obj3 = update_history cfg stamp feature_hash obj2;
                  obj4 = obj3\<lparr>FeatureHash := Some feature_hash\<rparr>
              in Inr (e\<lparr>objs := (objs e)(r := obj4),
                        feature_cache := (feature_cache e)(obj_id \<mapsto> (now, feature_hash)),
                        dependency_cache := (dependency_cache e)(obj_id := None)\<rparr>, True))
           else
             Inr (e\<lparr>objs := (objs e)(r := obj2),
                     feature_cache := (feature_cache e)(obj_id \<mapsto> (now, feature_hash))\<rparr>,
                  False)))"

text \<open>\<open>except Exception as e\<close>: print the warning, fall through to \<open>return False\<close>.\<close>

fun error_text :: "error \<Rightarrow> string" where
  "error_text (HostError msg) = msg"

definition process_feature :: "config \<Rightarrow> int \<Rightarrow> string \<Rightarrow> oid \<Rightarrow> engine \<Rightarrow> engine \<times> bool" where
  "process_feature cfg now stamp r e =
     (case process_feature_try cfg now stamp r e of
        Inr res \<Rightarrow> res
      | Inl err \<Rightarrow>
          (e\<lparr>console := console e @
                [''Fehler bei '' @ Name (objs e r) @ '': '' @ error_text err @ [CHR 0x0A]]\<rparr>,
           False))"


subsection \<open>Calls over time\<close>

text \<open>
  The stored history of an object (empty when the property is absent), the stored hash
  (\<open>FeatureHash\<close>, the empty string when absent, as \<open>addProperty\<close> creates it), and
  the hash an entry records: an entry is \<open>f"{timestamp}: {feature_hash}"\<close> with a
  timestamp of the 19 characters of \<open>%Y-%m-%d %H:%M:%S\<close>, so the hash starts at
  position 21. An MD5 \<open>hexdigest\<close> has 32 characters, an entry 53.
\<close>

definition history :: "engine \<Rightarrow> oid \<Rightarrow> string list" where
  "history e r = (case FeatureHistory (objs e r) of None \<Rightarrow> [] | Some h \<Rightarrow> h)"











section \<open>Ordering by dependencies\<close>

text \<open>\<open>graph[obj.Name] = [child.Name for child in obj.OutList if child in objects]\<close>,
  assigned for each object in turn; a later object of the same name replaces the entry.\<close>

definition build_graph :: "(oid \<Rightarrow> entity) \<Rightarrow> oid list \<Rightarrow> (string \<rightharpoonup> string list)" where
  "build_graph h objects =
     fold (\<lambda>obj g. g(Name (h obj) \<mapsto>
                       map (\<lambda>child. Name (h child))
                         (filter (\<lambda>child. child \<in> set objects) (OutList (h obj)))))
          objects Map.empty"

text \<open>The final loop of \<open>visit\<close>: append the first object that bears the name.\<close>

definition first_named :: "(oid \<Rightarrow> entity) \<Rightarrow> oid list \<Rightarrow> string \<Rightarrow> oid list" where
  "first_named h objects node_name =
     (case find (\<lambda>obj. Name (h obj) = node_name) objects of None \<Rightarrow> [] | Some obj \<Rightarrow> [obj])"

text \<open>The nested function \<open>visit\<close> with its \<open>for child in graph.get(node_name, [])\<close>
  loop. The state is the pair of the closure variables \<open>visited\<close> and \<open>result\<close>. The
  first argument bounds the depth of the recursion; \<open>None\<close> means the bound was hit.\<close>

fun visit :: "nat \<Rightarrow> (string \<rightharpoonup> string list) \<Rightarrow> (oid \<Rightarrow> entity) \<Rightarrow> oid list \<Rightarrow> string \<Rightarrow>
    string set \<times> oid list \<Rightarrow> (string set \<times> oid list) option"
  and visit_each :: "nat \<Rightarrow> (string \<rightharpoonup> string list) \<Rightarrow> (oid \<Rightarrow> entity) \<Rightarrow> oid list \<Rightarrow> string list \<Rightarrow>
    string set \<times> oid list \<Rightarrow> (string set \<times> oid list) option" where
  "visit 0 graph h objects node_name s = None"
| "visit (Suc fuel) graph h objects node_name (visited, result) =
     (if node_name \<in> visited then Some (visited, result)
      else
        (case visit_each fuel graph h objects
                (case graph node_name of None \<Rightarrow> [] | Some cs \<Rightarrow> cs)
                (insert node_name visited, result) of
           None \<Rightarrow> None
         | Some (visited', result') \<Rightarrow>
             Some (visited', result' @ first_named h objects node_name)))"
| "visit_each fuel graph h objects [] s = Some s"
| "visit_each fuel graph h objects (c # cs) s =
     (case visit fuel graph h objects c s of
        None \<Rightarrow> None
      | Some s' \<Rightarrow> visit_each fuel graph h objects cs s')"

text \<open>\<open>sort_by_dependencies\<close>: the loop \<open>for obj in objects: visit(obj.Name)\<close> from
  the empty state. The recursion is never deeper than the number of objects plus one.\<close>

definition sort_by_dependencies :: "(oid \<Rightarrow> entity) \<Rightarrow> oid list \<Rightarrow> oid list option" where
  "sort_by_dependencies h objects =
     map_option snd
       (visit_each (Suc (length objects)) (build_graph h objects) h objects
          (map (\<lambda>obj. Name (h obj)) objects) ({}, []))"

section \<open>Propagation with a depth limit\<close>

text \<open>The state of one propagation: the set \<open>processed\<close> of names, the engine, and the
  log of the objects on which \<open>process_feature\<close> was called, oldest first. The log is
  not a variable of the script; it records the calls so that they can be counted.\<close>

record pass =
  processed :: "string set"
  pass_engine :: engine
  fingerprinted :: "oid list"

fun process_with_depth_limit ::
    "nat \<Rightarrow> config \<Rightarrow> int \<Rightarrow> string \<Rightarrow> oid \<Rightarrow> nat \<Rightarrow> pass \<Rightarrow> pass option"
  and process_children ::
    "nat \<Rightarrow> config \<Rightarrow> int \<Rightarrow> string \<Rightarrow> oid list \<Rightarrow> nat \<Rightarrow> pass \<Rightarrow> pass option" where
  "process_with_depth_limit 0 cfg now stamp obj depth p = None"
| "process_with_depth_limit (Suc fuel) cfg now stamp obj depth p =
     (if Name (objs (pass_engine p) obj) \<in> processed p then Some p
      else
        (let p1 = p\<lparr>processed := insert (Name (objs (pass_engine p) obj)) (processed p),
                     pass_engine := fst (process_feature cfg now stamp obj (pass_engine p)),
                     fingerprinted := fingerprinted p @ [obj]\<rparr>
         in if depth = 1 then Some p1
            else process_children fuel cfg now stamp (OutList (objs (pass_engine p1) obj))
                   (if depth > 0 then depth - 1 else 0) p1))"
| "process_children fuel cfg now stamp [] depth p = Some p"
| "process_children fuel cfg now stamp (child # rest) depth p =
     (case process_with_depth_limit fuel cfg now stamp child depth p of
        None \<Rightarrow> None
      | Some p' \<Rightarrow> process_children fuel cfg now stamp rest depth p')"

text \<open>\<open>process_affected_features\<close>: nothing without an active document, else one
  propagation from a fresh \<open>processed\<close> set at depth \<open>config["dependency_depth"]\<close>.\<close>

definition process_affected_features ::
    "nat \<Rightarrow> config \<Rightarrow> int \<Rightarrow> string \<Rightarrow> bool \<Rightarrow> oid \<Rightarrow> engine \<Rightarrow> pass option" where
  "process_affected_features fuel cfg now stamp active_document obj e =
     (if \<not> active_document
      then Some \<lparr>processed = {}, pass_engine = e, fingerprinted = []\<rparr>
      else process_with_depth_limit fuel cfg now stamp obj (dependency_depth cfg)
             \<lparr>processed = {}, pass_engine = e, fingerprinted = []\<rparr>)"



section \<open>Observers, suspension and the two timers\<close>

text \<open>
  The module's global variables and the fields of the three observer objects. The set
  \<open>recompute_queue\<close> is kept as a duplicate-free list in order of first insertion (the
  order in which \<open>list(recompute_queue)\<close> enumerates a Python set is not fixed by the
  language). \<open>throttle_queue\<close> is a dict in insertion order, its \<open>props\<close> sets are
  duplicate-free lists. A single-shot timer is the time at which it is due, or \<open>None\<close>
  when it is not running; \<open>scheduled\<close> holds the pending \<open>QTimer.singleShot\<close>
  callbacks. Times are in milliseconds. Console messages of the observers are not
  modelled.
\<close>

datatype completion = EditCompletion | TaskCompletion

record world =
  eng :: engine
  active_document :: bool
  observer_active :: bool
  recompute_queue :: "oid list"
  recompute_timer :: "int option"
  changed_properties :: "string \<rightharpoonup> string list"
  pending_output :: bool
  task_panel_active :: bool
  changes_during_task :: bool
  edit_mode_active :: bool
  dobs_active :: bool
  last_change_time :: int
  throttle_queue :: "(string \<times> oid \<times> string list) list"
  throttle_timer :: "int option"
  emo_active :: bool
  in_edit_last :: bool
  tpo_active :: bool
  detected_panels :: "string set"
  scheduled :: "(int \<times> completion) list"

definition ignored_props :: "string list" where
  "ignored_props = [''FeatureHash'', ''FeatureHistory'', ''_GroupTouched'',
     ''Visibility'', ''FullyConstrained'',
     ''EditModes'', ''EditMode'', ''EditCurves'', ''EditHighlight'', ''HiddenLines'']"

definition suspended :: "world \<Rightarrow> bool" where
  "suspended w = (edit_mode_active w \<or> task_panel_active w)"

text \<open>\<open>recompute_queue.add(obj)\<close>.\<close>

definition queue_add :: "oid \<Rightarrow> oid list \<Rightarrow> oid list" where
  "queue_add obj q = (if obj \<in> set q then q else q @ [obj])"

text \<open>\<open>if prop not in changed_properties[label]: changed_properties[label].append(prop)\<close>
  on a \<open>defaultdict(list)\<close>.\<close>

definition record_prop :: "string \<Rightarrow> string \<Rightarrow> (string \<rightharpoonup> string list) \<Rightarrow> (string \<rightharpoonup> string list)" where
  "record_prop label prop cp =
     (let old = (case cp label of None \<Rightarrow> [] | Some ps \<Rightarrow> ps)
      in cp(label \<mapsto> (if prop \<in> set old then old else old @ [prop])))"

definition record_props :: "string \<Rightarrow> string list \<Rightarrow> (string \<rightharpoonup> string list) \<Rightarrow> (string \<rightharpoonup> string list)" where
  "record_props label props cp = fold (record_prop label) props cp"

definition start_recompute_timer :: "config \<Rightarrow> int \<Rightarrow> world \<Rightarrow> world" where
  "start_recompute_timer cfg now w =
     (if edit_mode_active w \<or> task_panel_active w then w
      else w\<lparr>recompute_timer := Some (now + recompute_delay cfg)\<rparr>)"

text \<open>\<open>DocumentObserver.queue_change\<close>.\<close>

definition add_props :: "string list \<Rightarrow> string list \<Rightarrow> string list" where
  "add_props props ps = fold (\<lambda>p ps. if p \<in> set ps then ps else ps @ [p]) props ps"

fun buffer_props :: "string \<Rightarrow> oid \<Rightarrow> string list \<Rightarrow> (string \<times> oid \<times> string list) list \<Rightarrow>
    (string \<times> oid \<times> string list) list" where
  "buffer_props name obj props [] = [(name, obj, add_props props [])]"
| "buffer_props name obj props ((name', obj', props') # rest) =
     (if name' = name
      then (name', obj', add_props props props') # rest
      else (name', obj', props') # buffer_props name obj props rest)"

definition queue_change :: "config \<Rightarrow> int \<Rightarrow> oid \<Rightarrow> string list \<Rightarrow> world \<Rightarrow> world" where
  "queue_change cfg now obj props w =
     w\<lparr>throttle_queue := buffer_props (Name (objs (eng w) obj)) obj props (throttle_queue w),
       throttle_timer := Some (now + throttle_interval cfg)\<rparr>"

definition slotCreatedObject :: "config \<Rightarrow> int \<Rightarrow> oid \<Rightarrow> world \<Rightarrow> world" where
  "slotCreatedObject cfg now obj w =
     (if \<not> (dobs_active w \<and> observer_active w) then w
      else if now - last_change_time w < throttle_interval cfg
      then queue_change cfg now obj [''Neues Objekt''] w
      else
        (let w1 = w\<lparr>last_change_time := now\<rparr>;
             label = Label (objs (eng w) obj)
         in if edit_mode_active w1 \<or> task_panel_active w1
            then w1\<lparr>recompute_queue := queue_add obj (recompute_queue w1),
                    changed_properties := (changed_properties w1)(label \<mapsto> [''Neues Objekt'']),
                    changes_during_task := True\<rparr>
            else start_recompute_timer cfg now
                   (w1\<lparr>recompute_queue := queue_add obj (recompute_queue w1),
                       changed_properties := (changed_properties w1)(label \<mapsto> [''Neues Objekt'']),
                       pending_output := True\<rparr>)))"

definition slotChangedObject :: "config \<Rightarrow> int \<Rightarrow> oid \<Rightarrow> string \<Rightarrow> world \<Rightarrow> world" where
  "slotChangedObject cfg now obj prop w =
     (if \<not> (dobs_active w \<and> observer_active w) \<or> prop \<in> set ignored_props then w
      else if now - last_change_time w < throttle_interval cfg
      then queue_change cfg now obj [prop] w
      else
        (let w1 = w\<lparr>last_change_time := now\<rparr>;
             label = Label (objs (eng w) obj)
         in if edit_mode_active w1 \<or> task_panel_active w1
            then w1\<lparr>recompute_queue := queue_add obj (recompute_queue w1),
                    changed_properties := record_prop label prop (changed_properties w1),
                    changes_during_task := True\<rparr>
            else start_recompute_timer cfg now
                   (w1\<lparr>recompute_queue := queue_add obj (recompute_queue w1),
                       changed_properties := record_prop label prop (changed_properties w1),
                       pending_output := True\<rparr>)))"

text \<open>One round of the loop of \<open>process_throttled_changes\<close>, and the whole handler,
  which runs when the throttle timer fires.\<close>

definition accept_buffered :: "config \<Rightarrow> int \<Rightarrow> string \<times> oid \<times> string list \<Rightarrow> world \<Rightarrow> world" where
  "accept_buffered cfg now entry w =
     (case entry of (name, obj, props) \<Rightarrow>
        (let label = Label (objs (eng w) obj)
         in if edit_mode_active w \<or> task_panel_active w
            then w\<lparr>recompute_queue := queue_add obj (recompute_queue w),
                   changed_properties := record_props label props (changed_properties w),
                   changes_during_task := True\<rparr>
            else start_recompute_timer cfg now
                   (w\<lparr>recompute_queue := queue_add obj (recompute_queue w),
                      changed_properties := record_props label props (changed_properties w),
                      pending_output := True\<rparr>)))"

definition process_throttled_changes :: "config \<Rightarrow> int \<Rightarrow> world \<Rightarrow> world" where
  "process_throttled_changes cfg now w =
     (fold (accept_buffered cfg now) (throttle_queue w) (w\<lparr>throttle_timer := None\<rparr>))
       \<lparr>throttle_queue := [], last_change_time := now\<rparr>"

text \<open>\<open>check_edit_completion\<close> and \<open>check_task_completion\<close>.\<close>

definition check_edit_completion :: "config \<Rightarrow> int \<Rightarrow> world \<Rightarrow> world" where
  "check_edit_completion cfg now w =
     (if task_panel_active w then w
      else if changes_during_task w \<and> recompute_queue w \<noteq> []
      then start_recompute_timer cfg now (w\<lparr>pending_output := True\<rparr>)
      else w\<lparr>recompute_queue := [], changed_properties := Map.empty\<rparr>)"

definition check_task_completion :: "config \<Rightarrow> int \<Rightarrow> world \<Rightarrow> world" where
  "check_task_completion cfg now w =
     (if edit_mode_active w then w
      else if changes_during_task w \<and> recompute_queue w \<noteq> []
      then start_recompute_timer cfg now (w\<lparr>pending_output := True\<rparr>)
      else w\<lparr>recompute_queue := [], changed_properties := Map.empty\<rparr>)"

text \<open>\<open>EditModeObserver.check_edit_mode\<close>; \<open>in_edit\<close> is what the probing of the GUI
  found in this poll.\<close>

definition check_edit_mode :: "int \<Rightarrow> bool \<Rightarrow> world \<Rightarrow> world" where
  "check_edit_mode now in_edit w =
     (if \<not> emo_active w then w
      else if in_edit \<noteq> in_edit_last w
      then (if in_edit
            then w\<lparr>in_edit_last := in_edit, edit_mode_active := True, changes_during_task := False\<rparr>
            else w\<lparr>in_edit_last := in_edit, edit_mode_active := False,
                   scheduled := scheduled w @ [(now + 100, EditCompletion)]\<rparr>)
      else w)"

text \<open>\<open>TaskPanelObserver.eventFilter\<close> for a \<open>ChildAdded\<close> and a \<open>ChildRemoved\<close> event
  whose child is a widget named \<open>obj_name\<close>. \<open>lower\<close> is \<open>str.lower\<close> on ASCII.\<close>

definition lower :: "string \<Rightarrow> string" where
  "lower s = map (\<lambda>c. if 65 \<le> (of_char c :: nat) \<and> (of_char c :: nat) \<le> 90
                        then char_of (of_char c + 32 :: nat) else c) s"

definition is_task_panel :: "string \<Rightarrow> bool" where
  "is_task_panel obj_name =
     (obj_name = ''TaskPanel'' \<or> sublist ''task'' (lower obj_name) \<or> sublist ''panel'' (lower obj_name))"

definition child_added :: "string \<Rightarrow> world \<Rightarrow> world" where
  "child_added obj_name w =
     (if \<not> tpo_active w then w
      else if is_task_panel obj_name \<and> obj_name \<notin> detected_panels w
      then w\<lparr>detected_panels := insert obj_name (detected_panels w),
             task_panel_active := True, changes_during_task := False\<rparr>
      else w)"

definition child_removed :: "int \<Rightarrow> string \<Rightarrow> world \<Rightarrow> world" where
  "child_removed now obj_name w =
     (if \<not> tpo_active w then w
      else if obj_name \<in> detected_panels w
      then (let w1 = w\<lparr>detected_panels := detected_panels w - {obj_name}\<rparr>
            in if detected_panels w1 = {}
               then w1\<lparr>task_panel_active := False,
                       scheduled := scheduled w1 @ [(now + 100, TaskCompletion)]\<rparr>
               else w1)
      else w)"

text \<open>\<open>on_recompute_timer\<close>, run when the debounce timer fires. The sorted objects are
  processed in their order (the slices of \<open>batch_size\<close> cover the list in order; the
  \<open>processEvents\<close> call between slices is not modelled).\<close>

fun process_sorted :: "nat \<Rightarrow> config \<Rightarrow> int \<Rightarrow> string \<Rightarrow> bool \<Rightarrow> oid list \<Rightarrow> engine \<Rightarrow> engine option" where
  "process_sorted fuel cfg now stamp ad [] e = Some e"
| "process_sorted fuel cfg now stamp ad (obj # rest) e =
     (case process_affected_features fuel cfg now stamp ad obj e of
        None \<Rightarrow> None
      | Some p \<Rightarrow> process_sorted fuel cfg now stamp ad rest (pass_engine p))"

definition on_recompute_timer :: "nat \<Rightarrow> config \<Rightarrow> int \<Rightarrow> string \<Rightarrow> world \<Rightarrow> world option" where
  "on_recompute_timer fuel cfg now stamp w =
     (let w0 = w\<lparr>recompute_timer := None\<rparr> in
      if recompute_queue w0 = [] then Some w0
      else if edit_mode_active w0 \<or> task_panel_active w0 then Some w0
      else
        (case sort_by_dependencies (objs (eng w0)) (recompute_queue w0) of
           None \<Rightarrow> None
         | Some sorted_objects \<Rightarrow>
             (case process_sorted fuel cfg now stamp (active_document w0) sorted_objects (eng w0) of
                None \<Rightarrow> None
              | Some e' \<Rightarrow>
                  Some (w0\<lparr>eng := e', recompute_queue := [],
                           changed_properties := Map.empty, pending_output := False\<rparr>))))"

text \<open>What the host's event loop delivers, each with the clock readings at delivery.\<close>

datatype event =
    ObjectCreated oid
  | ObjectChanged oid string
  | ThrottleTimeout
  | RecomputeTimeout
  | EditPoll bool
  | ChildAdded string
  | ChildRemoved string
  | SingleShot completion

fun step :: "nat \<Rightarrow> config \<Rightarrow> int \<times> string \<times> event \<Rightarrow> world \<Rightarrow> world option" where
  "step fuel cfg (now, stamp, ObjectCreated obj) w = Some (slotCreatedObject cfg now obj w)"
| "step fuel cfg (now, stamp, ObjectChanged obj prop) w = Some (slotChangedObject cfg now obj prop w)"
| "step fuel cfg (now, stamp, ThrottleTimeout) w = Some (process_throttled_changes cfg now w)"
| "step fuel cfg (now, stamp, RecomputeTimeout) w = on_recompute_timer fuel cfg now stamp w"
| "step fuel cfg (now, stamp, EditPoll in_edit) w = Some (check_edit_mode now in_edit w)"
| "step fuel cfg (now, stamp, ChildAdded obj_name) w = Some (child_added obj_name w)"
| "step fuel cfg (now, stamp, ChildRemoved obj_name) w = Some (child_removed now obj_name w)"
| "step fuel cfg (now, stamp, SingleShot EditCompletion) w =
     Some (check_edit_completion cfg now (w\<lparr>scheduled := remove1 (now, EditCompletion) (scheduled w)\<rparr>))"
| "step fuel cfg (now, stamp, SingleShot TaskCompletion) w =
     Some (check_task_completion cfg now (w\<lparr>scheduled := remove1 (now, TaskCompletion) (scheduled w)\<rparr>))"

fun run :: "nat \<Rightarrow> config \<Rightarrow> (int \<times> string \<times> event) list \<Rightarrow> world \<Rightarrow> world option" where
  "run fuel cfg [] w = Some w"
| "run fuel cfg (ev # evs) w =
     (case step fuel cfg ev w of None \<Rightarrow> None | Some w' \<Rightarrow> run fuel cfg evs w')"


text \<open>A burst of change notifications for one object, given as the delivery time, the
  clock text and the property name of each; and the set of property names recorded for
  a label in \<open>changed_properties\<close>.\<close>

definition burst :: "oid \<Rightarrow> (int \<times> string \<times> string) list \<Rightarrow> (int \<times> string \<times> event) list" where
  "burst obj tps = map (\<lambda>(t, stamp, p). (t, stamp, ObjectChanged obj p)) tps"

definition recorded :: "world \<Rightarrow> string \<Rightarrow> string set" where
  "recorded w label = (case changed_properties w label of None \<Rightarrow> {} | Some ps \<Rightarrow> set ps)"

section \<open>Example inputs\<close>

text \<open>A box that is cached with hash \<open>h0\<close>, exposes no \<open>TimeStamp\<close>, and whose
  attributes now hash to \<open>h1\<close>.\<close>

definition stale_box :: entity where
  "stale_box = \<lparr>Name = ''Box'', Label = ''Box'', TimeStamp = None, FeatureHash = Some ''h0'',
     FeatureHistory = Some [''t0: h0''], OutList = [], Fingerprint = Inr ''h1''\<rparr>"

definition stale_engine :: engine where
  "stale_engine = \<lparr>objs = (\<lambda>_. stale_box), feature_cache = [''Box'' \<mapsto> (100, ''h0'')],
     dependency_cache = Map.empty, console = []\<rparr>"

text \<open>A box modified at time 150 after being cached at time 100, whose attributes still
  hash to the stored \<open>h0\<close>.\<close>

definition touched_box :: entity where
  "touched_box = \<lparr>Name = ''Box'', Label = ''Box'', TimeStamp = Some 150, FeatureHash = Some ''h0'',
     FeatureHistory = Some [''t0: h0''], OutList = [], Fingerprint = Inr ''h0''\<rparr>"

definition touched_engine :: engine where
  "touched_engine = \<lparr>objs = (\<lambda>_. touched_box), feature_cache = [''Box'' \<mapsto> (100, ''h0'')],
     dependency_cache = Map.empty, console = []\<rparr>"


definition fresh_box :: entity where
  "fresh_box = \<lparr>Name = ''Box'', Label = ''Box'', TimeStamp = None, FeatureHash = None,
     FeatureHistory = None, OutList = [], Fingerprint = Inr ''h1''\<rparr>"


text \<open>A document of fresh boxes with every observer installed and nothing pending, and
  the same while an edit session is open.\<close>

definition fresh_engine :: engine where
  "fresh_engine = \<lparr>objs = (\<lambda>_. fresh_box), feature_cache = Map.empty,
     dependency_cache = Map.empty, console = []\<rparr>"

definition idle_world :: world where
  "idle_world = \<lparr>eng = fresh_engine, active_document = True, observer_active = True,
     recompute_queue = [], recompute_timer = None, changed_properties = Map.empty,
     pending_output = False, task_panel_active = False, changes_during_task = False,
     edit_mode_active = False, dobs_active = True, last_change_time = 0,
     throttle_queue = [], throttle_timer = None, emo_active = True, in_edit_last = False,
     tpo_active = True, detected_panels = {}, scheduled = []\<rparr>"


text \<open>The idle document, 50 ms before the first event of a burst at time 1000.\<close>

definition recent_world :: world where
  "recent_world = idle_world\<lparr>last_change_time := 950\<rparr>"







section \<open>Properties of the fingerprint engine\<close>

text \<open>
  Claim C1. The claim asks that an entity with a cache entry and no modification
  timestamp is always recomputed. The code reads the missing timestamp as \<open>0\<close>
  (\<open>getattr(obj, "TimeStamp", 0)\<close>), so with any cache entry whose time is not negative
  it returns \<open>False\<close> at once, leaving the engine as it was: the fingerprint is not
  recomputed, whatever the attributes have become.
\<close>

theorem process_feature_skips_without_timestamp:
  assumes "TimeStamp (objs e r) = None"
    and "feature_cache e (Name (objs e r)) = Some (cache_time, cache_hash)"
    and "0 \<le> cache_time"
  shows "process_feature cfg now stamp r e = (e, False)"
  using assms
  by (simp add: process_feature_def process_feature_try_def cache_skip_def last_modified_def)

theorem process_feature_skips_without_timestamp_witness:
  "Fingerprint (objs stale_engine 0) = Inr ''h1'' \<and>
   FeatureHash (objs stale_engine 0) = Some ''h0'' \<and>
   process_feature default_config 200 ''t1'' 0 stale_engine = (stale_engine, False)"
proof -
  have "TimeStamp (objs stale_engine 0) = None"
    by (simp add: stale_engine_def stale_box_def)
  moreover have "feature_cache stale_engine (Name (objs stale_engine 0)) = Some (100, ''h0'')"
    by (simp add: stale_engine_def stale_box_def)
  ultimately have "process_feature default_config 200 ''t1'' 0 stale_engine = (stale_engine, False)"
    by (rule process_feature_skips_without_timestamp) simp
  then show ?thesis
    by (simp add: stale_engine_def stale_box_def)
qed

text \<open>
  Claim C2, as stated, fails: a call that recomputes and finds the stored hash again
  still overwrites the cache entry, with the new time (line 189).
\<close>

theorem cache_overwritten_on_equal_hash:
  "Fingerprint (objs touched_engine 0) = Inr ''h0'' \<and>
   FeatureHash (objs touched_engine 0) = Some ''h0'' \<and>
   feature_cache touched_engine ''Box'' = Some (100, ''h0'') \<and>
   feature_cache (fst (process_feature default_config 200 ''t1'' 0 touched_engine)) ''Box''
     = Some (200, ''h0'') \<and>
   feature_cache (fst (process_feature default_config 200 ''t1'' 0 touched_engine)) ''Box''
     \<noteq> feature_cache touched_engine ''Box''"
  by (simp add: process_feature_def process_feature_try_def cache_skip_def last_modified_def
      ensure_properties_def touched_engine_def touched_box_def Let_def)

text \<open>
  Claim C2, amended. The cache entry of the entity's name is overwritten, with the
  current time and the computed hash, by every call that computes the hash: the cache
  check did not skip and the computation raised nothing. Whether the hash differs from
  the stored one plays no part. A call that skips or raises leaves the cache as it was,
  and no call touches the entry of another name.
\<close>

theorem process_feature_cache_entry:
  "feature_cache (fst (process_feature cfg now stamp r e)) =
    (if cache_skip e (objs e r) then feature_cache e
     else case Fingerprint (objs e r) of
            Inl err \<Rightarrow> feature_cache e
          | Inr h \<Rightarrow> (feature_cache e)(Name (objs e r) \<mapsto> (now, h)))"
  by (simp add: process_feature_def process_feature_try_def Let_def split: sum.splits)

theorem process_feature_cache_entry_witness:
  "feature_cache (fst (process_feature default_config 200 ''t1'' 0 touched_engine)) =
     (feature_cache touched_engine)(''Box'' \<mapsto> (200, ''h0''))"
  using process_feature_cache_entry [of default_config 200 "''t1''" 0 touched_engine]
  by (simp add: cache_skip_def last_modified_def touched_engine_def touched_box_def)



subsection \<open>The capped history\<close>
















lemma last_n_Nil_iff:
  assumes "0 < n"
  shows "last_n n xs = [] \<longleftrightarrow> xs = []"
proof -
  have "length xs \<le> length xs - n \<longleftrightarrow> length xs = 0"
    using assms by arith
  with assms show ?thesis by (simp add: last_n_def)
qed









section \<open>Properties of the suspension state machine\<close>














section \<open>Properties of the change aggregator\<close>

lemma set_add_props: "set (add_props props ps) = set ps \<union> set props"
  unfolding add_props_def by (induction props arbitrary: ps) auto

lemma record_prop_same:
  "(case record_prop label p cp label of None \<Rightarrow> {} | Some ps \<Rightarrow> set ps) =
     insert p (case cp label of None \<Rightarrow> {} | Some ps \<Rightarrow> set ps)"
  by (auto simp: record_prop_def Let_def split: option.splits)

lemma record_prop_other: "l \<noteq> label \<Longrightarrow> record_prop label p cp l = cp l"
  by (simp add: record_prop_def Let_def)

lemma record_props_same:
  "(case record_props label props cp label of None \<Rightarrow> {} | Some ps \<Rightarrow> set ps) =
     (case cp label of None \<Rightarrow> {} | Some ps \<Rightarrow> set ps) \<union> set props"
  unfolding record_props_def
proof (induction props arbitrary: cp)
  case Nil
  then show ?case by simp
next
  case (Cons p props)
  show ?case
    using Cons.IH [of "record_prop label p cp"] record_prop_same [of label p cp]
    by auto
qed

lemma record_props_other: "l \<noteq> label \<Longrightarrow> record_props label props cp l = cp l"
  unfolding record_props_def
  by (induction props arbitrary: cp) (auto simp: record_prop_other)

lemma run_burst_buffered:
  assumes "dobs_active w" and "observer_active w"
    and "throttle_queue w = [(Name (objs (eng w) obj), obj, ps0)]"
    and "\<forall>(t, stamp, p) \<in> set tps. p \<notin> set ignored_props \<and> t - last_change_time w < throttle_interval cfg"
    and "tps \<noteq> []"
  shows "run fuel cfg (burst obj tps) w =
     Some (w\<lparr>throttle_queue := [(Name (objs (eng w) obj), obj, add_props (map (snd \<circ> snd) tps) ps0)],
             throttle_timer := Some (fst (last tps) + throttle_interval cfg)\<rparr>)"
  using assms
proof (induction tps arbitrary: w ps0)
  case Nil
  then show ?case by simp
next
  case (Cons tp tps)
  obtain t stamp p where tp: "tp = (t, stamp, p)" by (cases tp) auto
  let ?w1 = "w\<lparr>throttle_queue := [(Name (objs (eng w) obj), obj, add_props [p] ps0)],
                throttle_timer := Some (t + throttle_interval cfg)\<rparr>"
  have st: "step fuel cfg (t, stamp, ObjectChanged obj p) w = Some ?w1"
    using Cons.prems tp by (simp add: slotChangedObject_def queue_change_def)
  show ?case
  proof (cases "tps = []")
    case True
    with st tp show ?thesis by (simp add: burst_def)
  next
    case False
    have "run fuel cfg (burst obj tps) ?w1 =
      Some (?w1\<lparr>throttle_queue := [(Name (objs (eng ?w1) obj), obj, add_props (map (snd \<circ> snd) tps) (add_props [p] ps0))],
             throttle_timer := Some (fst (last tps) + throttle_interval cfg)\<rparr>)"
      using Cons.prems False by (intro Cons.IH) auto
    with st tp False show ?thesis
      by (simp add: burst_def add_props_def comp_def)
  qed
qed

lemma run_burst_first:
  assumes "dobs_active w" and "observer_active w"
    and "throttle_queue w = []"
    and "\<forall>(t, stamp, p) \<in> set tps. p \<notin> set ignored_props \<and> t - last_change_time w < throttle_interval cfg"
    and "tps \<noteq> []"
  shows "run fuel cfg (burst obj tps) w =
     Some (w\<lparr>throttle_queue := [(Name (objs (eng w) obj), obj, add_props (map (snd \<circ> snd) tps) [])],
             throttle_timer := Some (fst (last tps) + throttle_interval cfg)\<rparr>)"
proof -
  obtain tp rest where tps: "tps = tp # rest" using assms(5) by (cases tps) auto
  obtain t stamp p where tp: "tp = (t, stamp, p)" by (cases tp) auto
  let ?q0 = "add_props [p] []"
  let ?w1 = "w\<lparr>throttle_queue := [(Name (objs (eng w) obj), obj, ?q0)],
                throttle_timer := Some (t + throttle_interval cfg)\<rparr>"
  have st: "step fuel cfg (t, stamp, ObjectChanged obj p) w = Some ?w1"
    using assms tps tp by (simp add: slotChangedObject_def queue_change_def)
  show ?thesis
  proof (cases "rest = []")
    case True
    with st tp tps show ?thesis by (simp add: burst_def)
  next
    case False
    have "run fuel cfg (burst obj rest) ?w1 =
      Some (?w1\<lparr>throttle_queue := [(Name (objs (eng ?w1) obj), obj, add_props (map (snd \<circ> snd) rest) ?q0)],
             throttle_timer := Some (fst (last rest) + throttle_interval cfg)\<rparr>)"
      using assms tps False by (intro run_burst_buffered) auto
    with st tp tps False show ?thesis
      by (simp add: burst_def add_props_def comp_def)
  qed
qed

lemma flush_single:
  assumes "throttle_queue w1 = [(name, obj, ps)]"
  shows "process_throttled_changes cfg tf w1 =
    (if edit_mode_active w1 \<or> task_panel_active w1
     then w1\<lparr>throttle_timer := None,
             recompute_queue := queue_add obj (recompute_queue w1),
             changed_properties := record_props (Label (objs (eng w1) obj)) ps (changed_properties w1),
             changes_during_task := True, throttle_queue := [], last_change_time := tf\<rparr>
     else w1\<lparr>throttle_timer := None,
             recompute_queue := queue_add obj (recompute_queue w1),
             changed_properties := record_props (Label (objs (eng w1) obj)) ps (changed_properties w1),
             pending_output := True, recompute_timer := Some (tf + recompute_delay cfg),
             throttle_queue := [], last_change_time := tf\<rparr>)"
  using assms
  by (simp add: process_throttled_changes_def accept_buffered_def start_recompute_timer_def Let_def)

lemma flush_empty:
  "throttle_queue w = [] \<Longrightarrow>
   process_throttled_changes cfg tf w = w\<lparr>throttle_timer := None, throttle_queue := [], last_change_time := tf\<rparr>"
  by (simp add: process_throttled_changes_def)

lemmas eval_defs = slotChangedObject_def queue_change_def process_throttled_changes_def
        accept_buffered_def record_prop_def record_props_def add_props_def start_recompute_timer_def
        queue_add_def ignored_props_def default_config_def idle_world_def
        fresh_engine_def fresh_box_def burst_def Let_def

text \<open>
  Claim C6, as stated, fails. The throttle compares the arrival time with the time of
  the last accepted event, not with the previous event. Three events for one box, 60 ms
  apart, with the last acceptance long ago: the first is accepted at once, alone, with
  the property \<open>Length\<close> only; the second is buffered; the third arrives 120 ms after
  the first and is accepted at once as well, while \<open>Width\<close> still waits in the buffer
  for the throttle timer.
\<close>

theorem burst_accepted_piecewise:
  "run 5 default_config (burst 0 [(1000, ''t1'', ''Length'')]) idle_world =
     Some (idle_world\<lparr>last_change_time := 1000, recompute_queue := [0],
        changed_properties := [''Box'' \<mapsto> [''Length'']], pending_output := True,
        recompute_timer := Some 1300\<rparr>) \<and>
   run 5 default_config
     (burst 0 [(1000, ''t1'', ''Length''), (1060, ''t2'', ''Width''), (1120, ''t3'', ''Height'')])
     idle_world =
     Some (idle_world\<lparr>last_change_time := 1120, recompute_queue := [0],
        changed_properties := [''Box'' \<mapsto> [''Length'', ''Height'']], pending_output := True,
        recompute_timer := Some 1420,
        throttle_queue := [(''Box'', 0, [''Width''])], throttle_timer := Some 1160\<rparr>)"
  by (simp add: eval_defs)

text \<open>
  Claim C6, amended. A burst of one or more change notifications for the same entity,
  each arriving less than \<open>throttle_interval\<close> after the last accepted event (the
  observer's \<open>last_change_time\<close>), with an empty buffer at the start, is buffered whole:
  the queue, the record, the debounce timer and the changes flag are untouched, the
  buffer holds one entry for the entity with exactly the properties of the burst, and
  the throttle timer is due \<open>throttle_interval\<close> after the last event. The firing of
  that timer accepts the entry once: the entity joins \<open>recompute_queue\<close>, the record
  of its label grows by the properties of the burst, other labels are untouched, the
  buffer is empty again and the debounce timer is armed (under suspension the changes
  flag is set instead). A further firing accepts nothing.
\<close>

theorem throttled_burst_coalesces:
  assumes "dobs_active w" and "observer_active w" and "throttle_queue w = []"
    and "tps \<noteq> []"
    and "\<forall>(t, stamp, p) \<in> set tps.
           p \<notin> set ignored_props \<and> t - last_change_time w < throttle_interval cfg"
  shows "\<exists>w1 w2 ps.
      run fuel cfg (burst obj tps) w = Some w1 \<and>
      recompute_queue w1 = recompute_queue w \<and> changed_properties w1 = changed_properties w \<and>
      recompute_timer w1 = recompute_timer w \<and> changes_during_task w1 = changes_during_task w \<and>
      throttle_timer w1 = Some (fst (last tps) + throttle_interval cfg) \<and>
      throttle_queue w1 = [(Name (objs (eng w) obj), obj, ps)] \<and>
      set ps = set (map (snd \<circ> snd) tps) \<and>
      step fuel cfg (tf, sf, ThrottleTimeout) w1 = Some w2 \<and>
      recompute_queue w2 = queue_add obj (recompute_queue w) \<and>
      recorded w2 (Label (objs (eng w) obj)) =
        recorded w (Label (objs (eng w) obj)) \<union> set (map (snd \<circ> snd) tps) \<and>
      (\<forall>l. l \<noteq> Label (objs (eng w) obj) \<longrightarrow> changed_properties w2 l = changed_properties w l) \<and>
      throttle_queue w2 = [] \<and> throttle_timer w2 = None \<and> last_change_time w2 = tf \<and>
      (if suspended w then changes_during_task w2 \<and> recompute_timer w2 = recompute_timer w
       else recompute_timer w2 = Some (tf + recompute_delay cfg)) \<and>
      step fuel cfg (tg, sg, ThrottleTimeout) w2 = Some (w2\<lparr>last_change_time := tg\<rparr>)"
proof -
  let ?ps = "add_props (map (snd \<circ> snd) tps) []"
  let ?w1 = "w\<lparr>throttle_queue := [(Name (objs (eng w) obj), obj, ?ps)],
               throttle_timer := Some (fst (last tps) + throttle_interval cfg)\<rparr>"
  let ?w2 = "process_throttled_changes cfg tf ?w1"
  have r: "run fuel cfg (burst obj tps) w = Some ?w1"
    by (rule run_burst_first [OF assms(1,2,3,5,4)])
  have q: "throttle_queue ?w1 = [(Name (objs (eng w) obj), obj, ?ps)]" by simp
  note f = flush_single [OF q, of cfg tf]
  have sps: "set ?ps = set (map (snd \<circ> snd) tps)"
    by (simp add: set_add_props)
  have rec: "recorded ?w2 (Label (objs (eng w) obj)) =
        recorded w (Label (objs (eng w) obj)) \<union> set (map (snd \<circ> snd) tps)"
    using record_props_same [of "Label (objs (eng w) obj)" ?ps "changed_properties w"] sps
    by (simp add: f recorded_def)
  have oth: "\<forall>l. l \<noteq> Label (objs (eng w) obj) \<longrightarrow> changed_properties ?w2 l = changed_properties w l"
    by (simp add: f record_props_other)
  have rest: "recompute_queue ?w2 = queue_add obj (recompute_queue w)"
    "throttle_queue ?w2 = []" "throttle_timer ?w2 = None" "last_change_time ?w2 = tf"
    "if suspended w then changes_during_task ?w2 \<and> recompute_timer ?w2 = recompute_timer w
       else recompute_timer ?w2 = Some (tf + recompute_delay cfg)"
    by (simp_all add: f suspended_def)
  have again: "step fuel cfg (tg, sg, ThrottleTimeout) ?w2 = Some (?w2\<lparr>last_change_time := tg\<rparr>)"
    using rest(2,3) by (simp add: flush_empty)
  have w1_facts: "recompute_queue ?w1 = recompute_queue w \<and> changed_properties ?w1 = changed_properties w \<and>
      recompute_timer ?w1 = recompute_timer w \<and> changes_during_task ?w1 = changes_during_task w \<and>
      throttle_timer ?w1 = Some (fst (last tps) + throttle_interval cfg)"
    by simp
  have st: "step fuel cfg (tf, sf, ThrottleTimeout) ?w1 = Some ?w2" by simp
  show ?thesis
    apply (rule exI [of _ ?w1], rule exI [of _ ?w2], rule exI [of _ ?ps])
    using r w1_facts q sps st rest rec oth again by blast
qed

theorem throttled_burst_coalesces_witness:
  "run 5 default_config
     (burst 0 [(1000, ''t1'', ''Length''), (1020, ''t2'', ''Width''), (1040, ''t3'', ''Length'')])
     recent_world =
     Some (recent_world\<lparr>throttle_queue := [(''Box'', 0, [''Length'', ''Width''])],
             throttle_timer := Some 1140\<rparr>) \<and>
   step 5 default_config (1140, ''t4'', ThrottleTimeout)
     (recent_world\<lparr>throttle_queue := [(''Box'', 0, [''Length'', ''Width''])],
             throttle_timer := Some 1140\<rparr>) =
     Some (recent_world\<lparr>last_change_time := 1140, recompute_queue := [0],
        changed_properties := [''Box'' \<mapsto> [''Length'', ''Width'']], pending_output := True,
        recompute_timer := Some 1440\<rparr>)"
proof -
  have h: "dobs_active recent_world" "observer_active recent_world" "throttle_queue recent_world = []"
    "[(1000, ''t1'', ''Length''), (1020, ''t2'', ''Width''), (1040, ''t3'', ''Length'')] \<noteq> []"
    "\<forall>(t, stamp, p) \<in> set [(1000, ''t1'', ''Length''), (1020, ''t2'', ''Width''), (1040, ''t3'', ''Length'')].
       p \<notin> set ignored_props \<and> t - last_change_time recent_world < throttle_interval default_config"
    by (simp_all add: recent_world_def idle_world_def ignored_props_def default_config_def)
  note t = throttled_burst_coalesces [OF h, of 5 0 1140 "''t4''" 1240 "''t5''"]
  have a: "run 5 default_config
     (burst 0 [(1000, ''t1'', ''Length''), (1020, ''t2'', ''Width''), (1040, ''t3'', ''Length'')])
     recent_world =
     Some (recent_world\<lparr>throttle_queue := [(''Box'', 0, [''Length'', ''Width''])],
             throttle_timer := Some 1140\<rparr>)"
    by (simp add: eval_defs recent_world_def)
  have b: "step 5 default_config (1140, ''t4'', ThrottleTimeout)
     (recent_world\<lparr>throttle_queue := [(''Box'', 0, [''Length'', ''Width''])],
             throttle_timer := Some 1140\<rparr>) =
     Some (recent_world\<lparr>last_change_time := 1140, recompute_queue := [0],
        changed_properties := [''Box'' \<mapsto> [''Length'', ''Width'']], pending_output := True,
        recompute_timer := Some 1440\<rparr>)"
    by (simp add: eval_defs recent_world_def)
  show ?thesis
    using t a b by simp
qed

section \<open>Properties of the propagation\<close>








end
